theory Spec2Isabelle
  imports Complex_Main "HOL-Library.Word"
begin

unbundle bit_operations_syntax

section \<open>Modelling conventions\<close>

text \<open>
  The development embeds \<^verbatim>\<open>takikawa_encoding.cuh\<close>: the three CUDA kernels
  \<^verbatim>\<open>kernel_takikawa\<close>, \<^verbatim>\<open>kernel_takikawa_backward_input\<close>,
  \<^verbatim>\<open>kernel_takikawa_backward\<close> and the class \<^verbatim>\<open>TakikawaEncoding\<close>.

  \<^item> Values of type \<^verbatim>\<open>float\<close> and \<^verbatim>\<open>__half\<close> are idealised as \<open>real\<close>: casts between
    them are the identity and rounding is not modelled. Which of the two types a buffer
    has is kept as a value of \<open>scalar_type\<close>, because the code branches on it.
  \<^item> A device buffer is a function from its element index to the value stored there; a
    \<^verbatim>\<open>MatrixView\<close> is a function of row and column. A null pointer or null view is \<open>None\<close>.
    Buffer sizes are not tracked; element indices are natural numbers (the 32-bit
    wrap-around of index arithmetic is left out: batches are taken to fit).
  \<^item> One kernel thread is a function of the thread index \<open>i\<close> on the buffers it writes;
    a launch runs the threads one after another in index order. Concurrency is not
    modelled; \<^verbatim>\<open>atomicAdd\<close> is a read-add-write.
  \<^item> \<^verbatim>\<open>traverse\<close>, \<^verbatim>\<open>TriangleOctree\<close> and \<^verbatim>\<open>TriangleOctreeDualNode\<close> are declared in
    \<^verbatim>\<open>triangle_octree.cuh\<close>, and \<^verbatim>\<open>smoothstep\<close>, \<^verbatim>\<open>smoothstep_derivative\<close> in tiny-cuda-nn;
    neither file is among the sources. They are parameters of the model: a traversal is
    any function giving, for a maximal depth and a point, the visitor calls it makes (in
    order) and the level it returns.
  \<^item> Configuration fields of the encoder are \<^verbatim>\<open>uint32_t\<close>, modelled as \<open>32 word\<close>.
\<close>

section \<open>Data model\<close>

datatype InterpolationType = Linear | Smoothstep

datatype scalar_type = Half | Float

datatype GradientMode = Ignore | Overwrite | Accumulate

datatype error = runtime_error string | null_dereference

type_synonym vec3 = "nat \<Rightarrow> real"

type_synonym buffer = "nat \<Rightarrow> real"

type_synonym matrix = "nat \<Rightarrow> nat \<Rightarrow> real"

record TriangleOctreeDualNode =
  vertices :: "nat \<Rightarrow> nat"

type_synonym visit = "TriangleOctreeDualNode \<times> nat \<times> vec3"

type_synonym traversal = "nat \<Rightarrow> vec3 \<Rightarrow> visit list \<times> int"

record tcnn_math =
  smoothstep :: "real \<Rightarrow> real"
  smoothstep_derivative :: "real \<Rightarrow> real"

record TriangleOctree =
  depth :: "32 word"
  n_vertices :: nat
  traverse :: traversal

record TakikawaEncoding =
  param_type :: scalar_type
  N_FEATURES_PER_LEVEL :: "32 word"
  m_starting_level :: "32 word"
  m_n_output_dims :: "32 word"
  m_n_to_pad :: "32 word"
  m_octree :: TriangleOctree
  m_interpolation_type :: InterpolationType

text \<open>A matrix with \<open>n_cols\<close> columns (\<^verbatim>\<open>n()\<close>), one per sample, and its \<^verbatim>\<open>view()\<close>.\<close>

record GPUMatrixDynamic =
  n_cols :: nat
  view :: matrix

datatype json = json_string string | json_uint "32 word"

section \<open>Device primitives\<close>

text \<open>
  \<open>scalbnf\<close> and \<open>fma\<close> (on vectors, componentwise) are the C and tiny-cuda-nn functions
  on reals; \<open>atomicAdd\<close> on a \<^verbatim>\<open>float\<close> and on a \<^verbatim>\<open>__half2\<close> (two consecutive elements)
  are the CUDA intrinsics, run one after another.
\<close>

definition make_vec3 :: "real \<Rightarrow> real \<Rightarrow> real \<Rightarrow> vec3" where
  "make_vec3 x y z = (\<lambda>d. if d = 0 then x else if d = 1 then y else z)"

definition mat_set :: "matrix \<Rightarrow> nat \<Rightarrow> nat \<Rightarrow> real \<Rightarrow> matrix" where
  "mat_set m r c v = m(r := (m r)(c := v))"

definition scalbnf :: "real \<Rightarrow> nat \<Rightarrow> real" where
  "scalbnf x e = x * 2 ^ e"

definition fma :: "real \<Rightarrow> (nat \<Rightarrow> real) \<Rightarrow> (nat \<Rightarrow> real) \<Rightarrow> nat \<Rightarrow> real" where
  "fma a b c = (\<lambda>f. a * b f + c f)"

definition atomicAdd :: "buffer \<Rightarrow> nat \<Rightarrow> real \<Rightarrow> buffer" where
  "atomicAdd buf a v = buf(a := buf a + v)"

definition atomicAdd_half2 :: "buffer \<Rightarrow> nat \<Rightarrow> real \<times> real \<Rightarrow> buffer" where
  "atomicAdd_half2 buf a v = (buf(a := buf a + fst v))(a + 1 := buf (a + 1) + snd v)"

definition N_THREADS_LINEAR :: nat where
  "N_THREADS_LINEAR = 128"

definition n_blocks_linear :: "nat \<Rightarrow> nat" where
  "n_blocks_linear n_elements = (n_elements + N_THREADS_LINEAR - 1) div N_THREADS_LINEAR"

text \<open>
  \<^verbatim>\<open>linear_kernel(kernel, 0, stream, n_elements, args...)\<close> is the launch helper of
  tiny-cuda-nn, which is not among the sources: it launches \<open>n_blocks_linear n_elements\<close>
  blocks of \<open>N_THREADS_LINEAR\<close> threads, and the kernel receives \<open>n_elements\<close> as its first
  argument. The block size plays no role in what follows: the threads beyond
  \<open>n_elements\<close> return at the guard of each kernel (\<open>linear_kernel_guarded\<close>).
\<close>

definition linear_kernel :: "(nat \<Rightarrow> nat \<Rightarrow> 's \<Rightarrow> 's) \<Rightarrow> nat \<Rightarrow> 's \<Rightarrow> 's" where
  "linear_kernel kern n_elements st =
     (if n_elements \<le> 0 then st
      else fold (kern n_elements) [0..<n_blocks_linear n_elements * N_THREADS_LINEAR] st)"

section \<open>The forward kernel\<close>

text \<open>Lines 62-75: the per-axis derivative factor and the warped position.\<close>

definition forward_warp :: "tcnn_math \<Rightarrow> InterpolationType \<Rightarrow> vec3 \<Rightarrow> vec3 \<times> vec3" where
  "forward_warp m interpolation_type pos =
     (if interpolation_type = Linear then
        fold (\<lambda>dm (pos_derivative, pos). (pos_derivative(dm := 1), pos)) [0..<3] (\<lambda>_. 0, pos)
      else
        fold (\<lambda>dm (pos_derivative, pos).
                (pos_derivative(dm := smoothstep_derivative m (pos dm)),
                 pos(dm := smoothstep m (pos dm))))
          [0..<3] (\<lambda>_. 0, pos))"

text \<open>Lines 83-92 and 234-243: the trilinear weight of corner \<open>idx\<close>.\<close>

definition corner_weight :: "vec3 \<Rightarrow> nat \<Rightarrow> real" where
  "corner_weight pos idx =
     fold (\<lambda>dm weight.
             if idx AND push_bit dm 1 = 0 then weight * (1 - pos dm) else weight * pos dm)
       [0..<3] 1"

text \<open>Lines 79-96: the weighted sum of the 8 corner feature vectors.\<close>

definition trilinear :: "nat \<Rightarrow> buffer \<Rightarrow> TriangleOctreeDualNode \<Rightarrow> vec3 \<Rightarrow> nat \<Rightarrow> real" where
  "trilinear F grid node pos =
     fold (\<lambda>idx result.
             let weight = corner_weight pos idx;
                 param_idx = vertices node idx * F
             in fma weight (\<lambda>f. grid (param_idx + f)) result)
       [0..<8] (\<lambda>_. 0)"

text \<open>Lines 98-101: the result goes to rows \<open>level * F + feature\<close> of column \<open>i\<close>.\<close>

definition store_features :: "nat \<Rightarrow> nat \<Rightarrow> nat \<Rightarrow> (nat \<Rightarrow> real) \<Rightarrow> matrix \<Rightarrow> matrix" where
  "store_features F level i result data_out =
     fold (\<lambda>feature out. mat_set out (level * F + feature) i (result feature)) [0..<F] data_out"

text \<open>Lines 114-127: weight and left vertex of the \<open>idx\<close>-th pair along \<open>grad_dim\<close>.\<close>

definition pair_weight :: "real \<Rightarrow> vec3 \<Rightarrow> nat \<Rightarrow> nat \<Rightarrow> real \<times> nat" where
  "pair_weight scale pos grad_dim idx =
     fold (\<lambda>non_grad_dim (weight, child_idx).
             let dm = (if non_grad_dim \<ge> grad_dim then non_grad_dim + 1 else non_grad_dim)
             in if idx AND push_bit non_grad_dim 1 = 0
                then (weight * (1 - pos dm), child_idx)
                else (weight * pos dm, child_idx OR push_bit dm 1))
       [0..<2] (scale, 0)"

text \<open>Lines 110-140: the derivative of the interpolant along \<open>grad_dim\<close>.\<close>

definition axis_grad ::
  "nat \<Rightarrow> buffer \<Rightarrow> TriangleOctreeDualNode \<Rightarrow> real \<Rightarrow> vec3 \<Rightarrow> vec3 \<Rightarrow> nat \<Rightarrow> nat \<Rightarrow> real" where
  "axis_grad F grid node scale pos pos_derivative grad_dim =
     fold (\<lambda>idx grad.
             let (weight, child_idx) = pair_weight scale pos grad_dim idx;
                 param_idx = vertices node child_idx * F;
                 val_left = (\<lambda>f. grid (param_idx + f));
                 child_idx = child_idx OR push_bit grad_dim 1;
                 param_idx = vertices node child_idx * F;
                 val_right = (\<lambda>f. grid (param_idx + f))
             in fold (\<lambda>feature g.
                        g(feature := g feature
                            + weight * (val_right feature - val_left feature)
                              * pos_derivative grad_dim))
                  [0..<F] grad)
       [0..<4] (\<lambda>_. 0)"

text \<open>Line 143: the vector store of \<open>F\<close> consecutive floats at \<open>base\<close>.\<close>

definition store_grad :: "nat \<Rightarrow> nat \<Rightarrow> (nat \<Rightarrow> real) \<Rightarrow> buffer \<Rightarrow> buffer" where
  "store_grad F base grad dy_dx =
     fold (\<lambda>feature b. b(base + feature := grad feature)) [0..<F] dy_dx"

text \<open>Lines 56-146: the visitor passed to \<^verbatim>\<open>traverse\<close>.\<close>

definition forward_visit ::
  "tcnn_math \<Rightarrow> nat \<Rightarrow> nat \<Rightarrow> nat \<Rightarrow> InterpolationType \<Rightarrow> buffer \<Rightarrow> nat \<Rightarrow> visit
     \<Rightarrow> matrix option \<times> buffer option \<Rightarrow> matrix option \<times> buffer option" where
  "forward_visit m F n_levels starting_level interpolation_type grid i v st =
     (case v of (node, level, pos) \<Rightarrow>
      case st of (data_out, dy_dx) \<Rightarrow>
        if level < starting_level then st
        else
          let n_features = F * n_levels;
              level = level - starting_level;
              (pos_derivative, pos) = forward_warp m interpolation_type pos;
              data_out =
                (case data_out of
                   None \<Rightarrow> None
                 | Some out \<Rightarrow> Some (store_features F level i (trilinear F grid node pos) out));
              dy_dx =
                (case dy_dx of
                   None \<Rightarrow> None
                 | Some d \<Rightarrow>
                     let scale = scalbnf 1 (level + starting_level)
                     in Some (fold (\<lambda>grad_dim d.
                                let grad = axis_grad F grid node scale pos pos_derivative grad_dim;
                                    fan_out_grad = n_features * 3
                                in store_grad F
                                     (i * fan_out_grad + level * F + grad_dim * n_features) grad d)
                              [0..<3] d))
          in (data_out, dy_dx))"

text \<open>Lines 149-158: zero for the levels from the returned one on.\<close>

definition zero_fill :: "nat \<Rightarrow> nat \<Rightarrow> nat \<Rightarrow> int \<Rightarrow> nat \<Rightarrow> matrix \<Rightarrow> matrix" where
  "zero_fill F n_levels starting_level level i data_out =
     (let level = nat (max 0 (level - int starting_level))
      in fold (\<lambda>level out. fold (\<lambda>f out. mat_set out (level * F + f) i 0) [0..<F] out)
           [level..<n_levels] data_out)"

definition kernel_takikawa ::
  "tcnn_math \<Rightarrow> nat \<Rightarrow> nat \<Rightarrow> nat \<Rightarrow> InterpolationType \<Rightarrow> traversal \<Rightarrow> buffer \<Rightarrow> matrix
     \<Rightarrow> nat \<Rightarrow> nat \<Rightarrow> matrix option \<times> buffer option \<Rightarrow> matrix option \<times> buffer option" where
  "kernel_takikawa m F n_levels starting_level interpolation_type octree_traverse grid data_in
     num_elements i st =
     (let n_features = F * n_levels;
          encoded_index = i * n_features
      in if encoded_index \<ge> num_elements * n_features then st
         else
           let (visits, level) =
                 octree_traverse (n_levels + starting_level)
                   (make_vec3 (data_in 0 i) (data_in 1 i) (data_in 2 i));
               (data_out, dy_dx) =
                 fold (forward_visit m F n_levels starting_level interpolation_type grid i)
                   visits st
           in (case data_out of
                 None \<Rightarrow> None
               | Some out \<Rightarrow> Some (zero_fill F n_levels starting_level level i out),
               dy_dx))"

section \<open>The backward kernels\<close>

definition kernel_takikawa_backward_input ::
  "nat \<Rightarrow> matrix \<Rightarrow> buffer \<Rightarrow> nat \<Rightarrow> nat \<Rightarrow> matrix \<Rightarrow> matrix" where
  "kernel_takikawa_backward_input num_grid_features dL_dy dy_dx num_elements input_index dL_dx =
     (if input_index \<ge> num_elements then dL_dx
      else
        let fan_out_grad = num_grid_features * 3;
            i = input_index div 3;
            j = input_index - i * 3;
            result =
              fold (\<lambda>k result.
                      result + dL_dy k i * dy_dx (i * fan_out_grad + j * num_grid_features + k))
                [0..<num_grid_features] 0
        in mat_set dL_dx j i result)"

text \<open>Lines 216-221.\<close>

definition backward_warp :: "tcnn_math \<Rightarrow> InterpolationType \<Rightarrow> vec3 \<Rightarrow> vec3" where
  "backward_warp m interpolation_type pos =
     (if interpolation_type = Smoothstep
      then fold (\<lambda>dm pos. pos(dm := smoothstep m (pos dm))) [0..<3] pos
      else pos)"

text \<open>The values of \<open>feature\<close> in \<^verbatim>\<open>for (feature = 0; feature < F; feature += 2)\<close>.\<close>

definition half2_features :: "nat \<Rightarrow> nat list" where
  "half2_features F = map (\<lambda>k. 2 * k) [0..<(F + 1) div 2]"

text \<open>
  Lines 247-266: the update of one corner. \<open>CUDA_ARCH\<close> is the value of
  \<^verbatim>\<open>__CUDA_ARCH__\<close> the kernel is compiled for, \<open>GRAD_T\<close> the accumulation type.
\<close>

definition scatter_corner ::
  "nat \<Rightarrow> scalar_type \<Rightarrow> nat \<Rightarrow> (nat \<Rightarrow> real) \<Rightarrow> real \<Rightarrow> nat \<Rightarrow> buffer \<Rightarrow> buffer" where
  "scatter_corner CUDA_ARCH GRAD_T F grad weight param_idx param_gradients =
     (if CUDA_ARCH \<ge> 600 \<and> F > 1 \<and> GRAD_T = Half then
        fold (\<lambda>feature pg.
                atomicAdd_half2 pg (param_idx + feature)
                  (grad feature * weight, grad (feature + 1) * weight))
          (half2_features F) param_gradients
      else if GRAD_T = Half then param_gradients
      else fold (\<lambda>f pg. atomicAdd pg param_idx (grad f * weight)) [0..<F] param_gradients)"

text \<open>Lines 210-268: the visitor of the backward pass.\<close>

definition backward_visit ::
  "tcnn_math \<Rightarrow> nat \<Rightarrow> scalar_type \<Rightarrow> nat \<Rightarrow> nat \<Rightarrow> InterpolationType \<Rightarrow> matrix \<Rightarrow> nat
     \<Rightarrow> visit \<Rightarrow> buffer \<Rightarrow> buffer" where
  "backward_visit m CUDA_ARCH GRAD_T F starting_level interpolation_type dL_dy i v
     param_gradients =
     (case v of (node, level, pos) \<Rightarrow>
        if level < starting_level then param_gradients
        else
          let level = level - starting_level;
              pos = backward_warp m interpolation_type pos;
              grad = (\<lambda>f. dL_dy (F * level + f) i)
          in fold (\<lambda>idx pg.
                     let weight = corner_weight pos idx;
                         param_idx = vertices node idx * F
                     in scatter_corner CUDA_ARCH GRAD_T F grad weight param_idx pg)
               [0..<8] param_gradients)"

definition kernel_takikawa_backward ::
  "tcnn_math \<Rightarrow> nat \<Rightarrow> scalar_type \<Rightarrow> nat \<Rightarrow> nat \<Rightarrow> nat \<Rightarrow> InterpolationType \<Rightarrow> traversal
     \<Rightarrow> matrix \<Rightarrow> matrix \<Rightarrow> nat \<Rightarrow> nat \<Rightarrow> buffer \<Rightarrow> buffer" where
  "kernel_takikawa_backward m CUDA_ARCH GRAD_T F n_levels starting_level interpolation_type
     octree_traverse data_in dL_dy num_elements i param_gradients =
     (let encoded_index = i * F * n_levels
      in if encoded_index \<ge> num_elements * F * n_levels then param_gradients
         else
           let (visits, level) =
                 octree_traverse (n_levels + starting_level)
                   (make_vec3 (data_in 0 i) (data_in 1 i) (data_in 2 i))
           in fold (backward_visit m CUDA_ARCH GRAD_T F starting_level interpolation_type
                      dL_dy i)
                visits param_gradients)"

section \<open>The encoder\<close>

text \<open>
  The template parameters \<^verbatim>\<open>T\<close> and \<^verbatim>\<open>N_FEATURES_PER_LEVEL\<close> are the fields \<open>param_type\<close>
  and \<open>N_FEATURES_PER_LEVEL\<close> of the instance. \<open>TCNN_MIN_GPU_ARCH\<close> is the build's macro.
\<close>

definition grad_t :: "nat \<Rightarrow> scalar_type \<Rightarrow> 32 word \<Rightarrow> scalar_type" where
  "grad_t TCNN_MIN_GPU_ARCH T F =
     (if TCNN_MIN_GPU_ARCH \<ge> 60 then (if F = 1 then Float else T) else Float)"

definition TakikawaEncoding_new ::
  "scalar_type \<Rightarrow> 32 word \<Rightarrow> 32 word \<Rightarrow> TriangleOctree \<Rightarrow> InterpolationType
     \<Rightarrow> error + TakikawaEncoding" where
  "TakikawaEncoding_new T F starting_level octree interpolation_type =
     (if starting_level \<ge> depth octree
      then Inl (runtime_error ''Starting level must be below octree depth.'')
      else if F \<noteq> 1 \<and> F \<noteq> 2 \<and> F \<noteq> 4 \<and> F \<noteq> 8
      then Inl (runtime_error ''Number of features per level must be 1, 2, 4, or 8.'')
      else Inr \<lparr>param_type = T,
                N_FEATURES_PER_LEVEL = F,
                m_starting_level = starting_level,
                m_n_output_dims = F * (depth octree - starting_level),
                m_n_to_pad = 0,
                m_octree = octree,
                m_interpolation_type = interpolation_type\<rparr>)"

definition n_levels :: "TakikawaEncoding \<Rightarrow> 32 word" where
  "n_levels enc = depth (m_octree enc) - m_starting_level enc"

definition padded_output_width :: "TakikawaEncoding \<Rightarrow> 32 word" where
  "padded_output_width enc = m_n_output_dims enc + m_n_to_pad enc"

definition n_params :: "TakikawaEncoding \<Rightarrow> nat" where
  "n_params enc = unat (N_FEATURES_PER_LEVEL enc) * n_vertices (m_octree enc)"

definition hyperparams :: "TakikawaEncoding \<Rightarrow> (string \<times> json) list" where
  "hyperparams enc =
     [(''otype'', json_string ''Takikawa''),
      (''starting_level'', json_uint (m_starting_level enc)),
      (''n_levels'', json_uint (depth (m_octree enc)))]"


definition memset_zero :: "nat \<Rightarrow> buffer \<Rightarrow> buffer" where
  "memset_zero count buf = (\<lambda>k. if k < count then 0 else buf k)"

text \<open>Lines 384-386: \<^verbatim>\<open>grad[i] = (T)grad_tmp[i]\<close> for \<open>i < n_params\<close>.\<close>

definition cast_copy :: "nat \<Rightarrow> buffer \<Rightarrow> buffer \<Rightarrow> buffer" where
  "cast_copy count grad_tmp grad = (\<lambda>k. if k < count then grad_tmp k else grad k)"

text \<open>
  \<open>backward_impl\<close> returns the gradient buffer and \<open>dL_dinput\<close>. \<open>workspace\<close> is the content
  of the memory \<^verbatim>\<open>allocate_workspace\<close> returns; \<open>forward_dy_dx\<close> is the \<open>dy_dx\<close> of the forward
  context, whose null pointer the input-gradient kernel would dereference.
\<close>

definition backward_impl ::
  "tcnn_math \<Rightarrow> nat \<Rightarrow> nat \<Rightarrow> TakikawaEncoding \<Rightarrow> buffer \<Rightarrow> buffer option \<Rightarrow> GPUMatrixDynamic
     \<Rightarrow> matrix \<Rightarrow> matrix option \<Rightarrow> GradientMode \<Rightarrow> buffer
     \<Rightarrow> error + buffer \<times> matrix option" where
  "backward_impl m TCNN_MIN_GPU_ARCH CUDA_ARCH enc workspace forward_dy_dx input dL_doutput
     dL_dinput param_gradients_mode gradients =
     (let num_elements = n_cols input
      in if padded_output_width enc = 0 \<or> num_elements = 0 then Inr (gradients, dL_dinput)
         else
           let GRAD_T = grad_t TCNN_MIN_GPU_ARCH (param_type enc) (N_FEATURES_PER_LEVEL enc);
               gradients =
                 (if param_gradients_mode \<noteq> Ignore then
                    let param_gradients =
                          (if GRAD_T \<noteq> param_type enc then workspace else gradients);
                        param_gradients =
                          (if param_gradients_mode = Overwrite
                           then memset_zero (n_params enc) param_gradients
                           else param_gradients);
                        param_gradients =
                          linear_kernel
                            (kernel_takikawa_backward m CUDA_ARCH GRAD_T
                               (unat (N_FEATURES_PER_LEVEL enc)) (unat (n_levels enc))
                               (unat (m_starting_level enc)) (m_interpolation_type enc)
                               (traverse (m_octree enc)) (view input) dL_doutput)
                            num_elements param_gradients
                    in if GRAD_T \<noteq> param_type enc
                       then cast_copy (n_params enc) param_gradients gradients
                       else param_gradients
                  else gradients)
           in (case dL_dinput of
                 None \<Rightarrow> Inr (gradients, None)
               | Some dL_dx \<Rightarrow>
                   (case forward_dy_dx of
                      None \<Rightarrow> Inl null_dereference
                    | Some dy_dx \<Rightarrow>
                        Inr (gradients,
                             Some (linear_kernel
                                     (kernel_takikawa_backward_input
                                        (unat (N_FEATURES_PER_LEVEL enc * n_levels enc))
                                        dL_doutput dy_dx)
                                     (num_elements * 3) dL_dx)))))"

text \<open>
  Lines 247-259: the branch commented \<^verbatim>\<open>Should never happen\<close> is taken when the
  accumulation type is \<^verbatim>\<open>__half\<close> and the \<^verbatim>\<open>__half2\<close> path is not.
\<close>

definition attempts_atomicAdd_half :: "nat \<Rightarrow> scalar_type \<Rightarrow> nat \<Rightarrow> bool" where
  "attempts_atomicAdd_half CUDA_ARCH GRAD_T F =
     (\<not> (CUDA_ARCH \<ge> 600 \<and> F > 1 \<and> GRAD_T = Half) \<and> GRAD_T = Half)"

section \<open>The interpolant and its derivative, as the specification words them\<close>

text \<open>
  The trilinear blend of 8 corner values \<open>v\<close> at the position \<open>p\<close>: corner \<open>idx\<close> has the
  weight that takes \<open>p d\<close> where bit \<open>d\<close> of \<open>idx\<close> is set and \<open>1 - p d\<close> where it is not.
\<close>

definition trilinear_spec :: "(nat \<Rightarrow> real) \<Rightarrow> vec3 \<Rightarrow> real" where
  "trilinear_spec v p =
     (1 - p 0) * (1 - p 1) * (1 - p 2) * v 0 + p 0 * (1 - p 1) * (1 - p 2) * v 1
     + (1 - p 0) * p 1 * (1 - p 2) * v 2 + p 0 * p 1 * (1 - p 2) * v 3
     + (1 - p 0) * (1 - p 1) * p 2 * v 4 + p 0 * (1 - p 1) * p 2 * v 5
     + (1 - p 0) * p 1 * p 2 * v 6 + p 0 * p 1 * p 2 * v 7"


text \<open>
  The position the weights are taken at (the local position, or its smoothstep) and the
  derivative factor of an axis (1, or the smoothstep derivative of the local position).
\<close>

definition interpolation_position :: "tcnn_math \<Rightarrow> InterpolationType \<Rightarrow> vec3 \<Rightarrow> vec3" where
  "interpolation_position m interpolation_type pos =
     (if interpolation_type = Linear then pos
      else (\<lambda>d. if d < 3 then smoothstep m (pos d) else pos d))"


section \<open>The two halves of the forward visitor\<close>

text \<open>
  The visitor of the forward kernel acts on the output matrix and on the derivative cache
  separately: \<open>visit_out\<close> is its action on a non-null output, \<open>visit_dy\<close> its action on a
  non-null cache (see \<open>forward_visit_split\<close>).
\<close>

definition visit_out ::
  "tcnn_math \<Rightarrow> nat \<Rightarrow> nat \<Rightarrow> InterpolationType \<Rightarrow> buffer \<Rightarrow> nat \<Rightarrow> visit \<Rightarrow> matrix \<Rightarrow> matrix" where
  "visit_out m F starting_level interpolation_type grid i v out =
     (case v of (node, level, pos) \<Rightarrow>
        if level < starting_level then out
        else store_features F (level - starting_level) i
               (trilinear F grid node (snd (forward_warp m interpolation_type pos))) out)"

definition visit_dy ::
  "tcnn_math \<Rightarrow> nat \<Rightarrow> nat \<Rightarrow> nat \<Rightarrow> InterpolationType \<Rightarrow> buffer \<Rightarrow> nat \<Rightarrow> visit \<Rightarrow> buffer
     \<Rightarrow> buffer" where
  "visit_dy m F L starting_level interpolation_type grid i v d =
     (case v of (node, level, pos) \<Rightarrow>
        if level < starting_level then d
        else fold (\<lambda>grad_dim d.
                     store_grad F
                       (i * (F * L * 3) + (level - starting_level) * F
                          + grad_dim * (F * L))
                       (axis_grad F grid node (scalbnf 1 (level - starting_level + starting_level))
                          (snd (forward_warp m interpolation_type pos))
                          (fst (forward_warp m interpolation_type pos)) grad_dim)
                       d)
               [0..<3] d)"



section \<open>Concrete inputs\<close>

text \<open>
  A node whose corner \<open>idx\<close> is the vertex \<open>idx\<close>, the centre of a cell, and a traversal
  that visits this node once, at level 0 with the point at the centre, and returns 1.
\<close>

definition corner_node :: TriangleOctreeDualNode where
  "corner_node = \<lparr>vertices = (\<lambda>idx. idx)\<rparr>"

definition centroid :: vec3 where
  "centroid = (\<lambda>_. 1 / 2)"

definition single_node_traversal :: traversal where
  "single_node_traversal = (\<lambda>max_depth p. ([(corner_node, 0, centroid)], 1))"

definition cubic_math :: tcnn_math where
  "cubic_math =
     \<lparr>smoothstep = (\<lambda>x. x * x * (3 - 2 * x)), smoothstep_derivative = (\<lambda>x. 6 * x * (1 - x))\<rparr>"

text \<open>A 2-level octree in which only this node is populated.\<close>

definition example_octree :: TriangleOctree where
  "example_octree = \<lparr>depth = 2, n_vertices = 8, traverse = single_node_traversal\<rparr>"

text \<open>
  Encoders over this octree, as the constructor returns them: half-precision parameters
  with one feature per level from level 0, and with two features per level from level 1
  with smoothstep interpolation; the first one with float parameters. A batch of one
  sample.
\<close>

definition half1_encoding :: TakikawaEncoding where
  "half1_encoding =
     \<lparr>param_type = Half, N_FEATURES_PER_LEVEL = 1, m_starting_level = 0, m_n_output_dims = 2,
      m_n_to_pad = 0, m_octree = example_octree, m_interpolation_type = Linear\<rparr>"

definition smooth_encoding :: TakikawaEncoding where
  "smooth_encoding =
     \<lparr>param_type = Half, N_FEATURES_PER_LEVEL = 2, m_starting_level = 1, m_n_output_dims = 2,
      m_n_to_pad = 0, m_octree = example_octree, m_interpolation_type = Smoothstep\<rparr>"

definition float1_encoding :: TakikawaEncoding where
  "float1_encoding = half1_encoding\<lparr>param_type := Float\<rparr>"

definition one_sample :: GPUMatrixDynamic where
  "one_sample = \<lparr>n_cols = 1, view = (\<lambda>row col. 1 / 2)\<rparr>"

text \<open>Upstream gradients: \<open>[3, 5]\<close> and \<open>[1, 1]\<close> for every sample.\<close>

definition upstream35 :: matrix where
  "upstream35 = (\<lambda>row col. if row = 0 then 3 else 5)"

definition upstream11 :: matrix where
  "upstream11 = (\<lambda>row col. 1)"


definition ramp_grid :: buffer where
  "ramp_grid = (\<lambda>k. real k)"

section \<open>Loops in closed form\<close>

lemma upt_2: "[0..<2::nat] = [0, 1]"
  by (simp add: upt_rec)

lemma upt_3: "[0..<3::nat] = [0, 1, 2]"
  by (simp add: upt_rec)


lemma upt_8: "[0..<8::nat] = [0, 1, 2, 3, 4, 5, 6, 7]"
  by (simp add: upt_rec)

lemma corner_weight_centroid: "corner_weight centroid idx = 1 / 8"
  by (simp add: corner_weight_def centroid_def upt_3)

lemma fold_atomicAdd_apply:
  "fold (\<lambda>x pg. atomicAdd pg (a x) (v x)) xs pg k
     = pg k + sum_list (map (\<lambda>x. if a x = k then v x else 0) xs)"
  by (induction xs arbitrary: pg) (auto simp: atomicAdd_def)

text \<open>
  The fallback path (lines 261-264) adds every feature's term to the one slot
  \<open>param_idx\<close>.
\<close>

lemma scatter_corner_float:
  "scatter_corner CUDA_ARCH Float F grad weight param_idx pg
     = atomicAdd pg param_idx (sum_list (map (\<lambda>f. grad f * weight) [0..<F]))"
proof
  fix k
  have "fold (\<lambda>f pg. atomicAdd pg param_idx (grad f * weight)) [0..<F] pg k
      = pg k + sum_list (map (\<lambda>f. if param_idx = k then grad f * weight else 0) [0..<F])"
    by (rule fold_atomicAdd_apply)
  then show "scatter_corner CUDA_ARCH Float F grad weight param_idx pg k
     = atomicAdd pg param_idx (sum_list (map (\<lambda>f. grad f * weight) [0..<F])) k"
    by (simp add: scatter_corner_def atomicAdd_def)
qed

section \<open>Construction and configuration report\<close>


lemma smooth_new: "TakikawaEncoding_new Half 2 1 example_octree Smoothstep = Inr smooth_encoding"
  by (simp add: TakikawaEncoding_new_def example_octree_def smooth_encoding_def word_le_nat_alt)


lemma scatter_corner_unsupported:
  "attempts_atomicAdd_half CUDA_ARCH GRAD_T F \<Longrightarrow>
   scatter_corner CUDA_ARCH GRAD_T F grad weight param_idx pg = pg"
  by (auto simp: attempts_atomicAdd_half_def scatter_corner_def)




text \<open>
  C8, as the code has it. The report has exactly the keys \<open>otype\<close>, \<open>starting_level\<close> and
  \<open>n_levels\<close>; \<open>starting_level\<close> holds the starting level; \<open>n_levels\<close> holds the octree depth,
  which is the derived level count plus the starting level; the report does not depend
  on the interpolation mode.
\<close>

theorem hyperparams_report:
  "map_of (hyperparams enc) ''otype'' = Some (json_string ''Takikawa'')
   \<and> map_of (hyperparams enc) ''starting_level'' = Some (json_uint (m_starting_level enc))
   \<and> map_of (hyperparams enc) ''n_levels'' = Some (json_uint (depth (m_octree enc)))
   \<and> depth (m_octree enc) = n_levels enc + m_starting_level enc
   \<and> map fst (hyperparams enc) = [''otype'', ''starting_level'', ''n_levels'']
   \<and> hyperparams (enc\<lparr>m_interpolation_type := t\<rparr>) = hyperparams enc"
  by (simp add: hyperparams_def n_levels_def)

text \<open>
  The claim C8 as stated reports the derived level count and the interpolation mode.
  The encoder built with starting level 1 on the octree of depth 2 with smoothstep
  interpolation has 1 level and reports \<open>n_levels = 2\<close>; its report has three keys and is
  the report of the same encoder with linear interpolation.
\<close>

theorem hyperparams_counterexample:
  "TakikawaEncoding_new Half 2 1 example_octree Smoothstep = Inr smooth_encoding
   \<and> n_levels smooth_encoding = 1
   \<and> map_of (hyperparams smooth_encoding) ''n_levels'' = Some (json_uint 2)
   \<and> map fst (hyperparams smooth_encoding) = [''otype'', ''starting_level'', ''n_levels'']
   \<and> hyperparams smooth_encoding = hyperparams (smooth_encoding\<lparr>m_interpolation_type := Linear\<rparr>)"
  using smooth_new
  by (simp add: hyperparams_def n_levels_def smooth_encoding_def example_octree_def)

section \<open>Kernel launches\<close>

lemma fold_id:
  assumes "\<And>x st. x \<in> set xs \<Longrightarrow> f x st = st"
  shows "fold f xs st = st"
  using assms
proof (induction xs arbitrary: st)
  case Nil
  show ?case by simp
next
  case (Cons x xs)
  have "f x st = st" by (rule Cons.prems) simp
  moreover have "fold f xs st = st" by (rule Cons.IH) (simp add: Cons.prems)
  ultimately show ?case by simp
qed

lemma n_blocks_linear_covers: "n_elements \<le> n_blocks_linear n_elements * N_THREADS_LINEAR"
proof -
  define k where "k = N_THREADS_LINEAR"
  define a where "a = n_elements + k - 1"
  have k: "0 < k" by (simp add: k_def N_THREADS_LINEAR_def)
  have "a div k * k + a mod k = a" by simp
  moreover have "a mod k < k" using k by simp
  ultimately have "n_elements \<le> a div k * k" unfolding a_def by linarith
  then show ?thesis by (simp add: n_blocks_linear_def k_def a_def)
qed

lemma linear_kernel_guarded:
  assumes guard: "\<And>i st. n_elements \<le> i \<Longrightarrow> kern n_elements i st = st"
  shows "linear_kernel kern n_elements st = fold (kern n_elements) [0..<n_elements] st"
proof -
  let ?B = "n_blocks_linear n_elements * N_THREADS_LINEAR"
  have cover: "n_elements \<le> ?B" by (rule n_blocks_linear_covers)
  have "[0..<?B] = [0..<n_elements] @ [n_elements..<?B]"
    using cover by (metis le_add_diff_inverse upt_add_eq_append zero_le)
  then have "fold (kern n_elements) [0..<?B] st
       = fold (kern n_elements) [n_elements..<?B] (fold (kern n_elements) [0..<n_elements] st)"
    by simp
  also have "\<dots> = fold (kern n_elements) [0..<n_elements] st"
    by (rule fold_id) (simp add: guard)
  finally show ?thesis
    by (simp add: linear_kernel_def)
qed

lemma backward_guard:
  "num_elements \<le> i \<Longrightarrow>
   kernel_takikawa_backward m CA G F nl sl it tr data_in dL_dy num_elements i pg = pg"
  by (simp add: kernel_takikawa_backward_def)



section \<open>Backward pass to the input\<close>






section \<open>Backward pass to the parameters: the slot of each feature\<close>

text \<open>
  C1. The claim: for every corner and every feature component \<open>f < F\<close> the backward kernel
  adds \<open>weight * upstream_gradient[f]\<close> to the slot \<open>vertex_index * F + f\<close>, on the scalar
  float path too. The kernel at \<open>F = 2\<close> with float accumulation, one sample at the centre
  of one node, upstream gradient \<open>[3, 5]\<close> and a zero buffer: vertex 0 should receive
  \<open>3/8\<close> in slot 0 and \<open>5/8\<close> in slot 1. The fallback path adds both terms to slot 0:
  slot 0 holds \<open>3/8 + 5/8\<close> and slot 1 stays 0.
\<close>

theorem backward_float_path_single_slot:
  "kernel_takikawa_backward m 750 Float 2 1 0 Linear single_node_traversal (\<lambda>_ _. 1 / 2)
       upstream35 1 0 (\<lambda>_. 0) 0 = 1
   \<and> kernel_takikawa_backward m 750 Float 2 1 0 Linear single_node_traversal (\<lambda>_ _. 1 / 2)
       upstream35 1 0 (\<lambda>_. 0) 1 = 0"
  apply (simp add: kernel_takikawa_backward_def single_node_traversal_def backward_visit_def
      backward_warp_def scatter_corner_float corner_node_def upstream35_def
      corner_weight_centroid upt_8 upt_2)
  apply (simp add: atomicAdd_def)
  done

section \<open>The forward visitor in closed form\<close>

lemma less_3: "(x < (3::nat)) = (x = 0 \<or> x = 1 \<or> x = 2)"
  by arith

lemma forward_warp_snd: "snd (forward_warp m t pos) = interpolation_position m t pos"
  by (auto simp: forward_warp_def interpolation_position_def upt_3 fun_eq_iff less_3)


lemma backward_warp_eq: "backward_warp m t pos = interpolation_position m t pos"
  by (cases t) (auto simp: backward_warp_def interpolation_position_def upt_3 fun_eq_iff less_3)

lemma fold_fma_apply:
  "fold (\<lambda>idx result. fma (w idx) (b idx) result) xs r f
     = r f + sum_list (map (\<lambda>idx. w idx * b idx f) xs)"
  by (induction xs arbitrary: r) (simp_all add: fma_def)

lemma trilinear_apply:
  "trilinear F grid node pos f
     = sum_list (map (\<lambda>idx. corner_weight pos idx * grid (vertices node idx * F + f)) [0..<8])"
  unfolding trilinear_def Let_def
  by (simp only: fold_fma_apply)

lemma corner_weights:
  "corner_weight p 0 = (1 - p 0) * (1 - p 1) * (1 - p 2)"
  "corner_weight p 1 = p 0 * (1 - p 1) * (1 - p 2)"
  "corner_weight p (Suc 0) = p 0 * (1 - p 1) * (1 - p 2)"
  "corner_weight p 2 = (1 - p 0) * p 1 * (1 - p 2)"
  "corner_weight p 3 = p 0 * p 1 * (1 - p 2)"
  "corner_weight p 4 = (1 - p 0) * (1 - p 1) * p 2"
  "corner_weight p 5 = p 0 * (1 - p 1) * p 2"
  "corner_weight p 6 = (1 - p 0) * p 1 * p 2"
  "corner_weight p 7 = p 0 * p 1 * p 2"
  by (simp_all add: corner_weight_def upt_3)

lemma trilinear_eq_spec:
  "trilinear F grid node pos f = trilinear_spec (\<lambda>idx. grid (vertices node idx * F + f)) pos"
  by (simp add: trilinear_apply upt_8 corner_weights trilinear_spec_def)

lemma mat_set_apply:
  "mat_set out r' c' v r c = (if r = r' \<and> c = c' then v else out r c)"
  by (simp add: mat_set_def)

lemma fold_store_apply:
  "fold (\<lambda>feature out. mat_set out (base + feature) i (result feature)) [0..<k] out r c
     = (if c = i \<and> base \<le> r \<and> r < base + k then result (r - base) else out r c)"
proof (induction k)
  case 0
  show ?case by simp
next
  case (Suc k)
  let ?G = "\<lambda>feature out. mat_set out (base + feature) i (result feature)"
  have "fold ?G [0..<Suc k] out r c = mat_set (fold ?G [0..<k] out) (base + k) i (result k) r c"
    by simp
  also have "\<dots> = (if r = base + k \<and> c = i then result k else fold ?G [0..<k] out r c)"
    by (rule mat_set_apply)
  also have "\<dots> = (if c = i \<and> base \<le> r \<and> r < base + Suc k then result (r - base) else out r c)"
    unfolding Suc.IH by auto
  finally show ?case .
qed

lemma store_features_apply:
  "store_features F level i result out r c
     = (if c = i \<and> level * F \<le> r \<and> r < level * F + F then result (r - level * F) else out r c)"
  unfolding store_features_def by (rule fold_store_apply)


section \<open>The forward kernel in closed form\<close>

lemma forward_visit_split:
  "forward_visit m F L starting_level interpolation_type grid i v (a, b)
     = (map_option (visit_out m F starting_level interpolation_type grid i v) a,
        map_option (visit_dy m F L starting_level interpolation_type grid i v) b)"
  by (cases v; cases a; cases b)
    (simp_all add: forward_visit_def visit_out_def visit_dy_def Let_def split_beta)

lemma fold_forward_visit:
  "fold (forward_visit m F L starting_level interpolation_type grid i) vs (a, b)
     = (map_option (fold (visit_out m F starting_level interpolation_type grid i) vs) a,
        map_option (fold (visit_dy m F L starting_level interpolation_type grid i) vs) b)"
proof (induction vs arbitrary: a b)
  case Nil
  show ?case by (simp add: option.map_ident)
next
  case (Cons v vs)
  show ?case
    by (simp add: forward_visit_split Cons.IH option.map_comp o_def)
qed

lemma kernel_takikawa_split:
  assumes "octree_traverse (L + starting_level)
             (make_vec3 (data_in 0 i) (data_in 1 i) (data_in 2 i)) = (visits, level)"
    and "i < num_elements" and "0 < F" and "0 < L"
  shows "kernel_takikawa m F L starting_level interpolation_type octree_traverse grid
           data_in num_elements i (a, b)
     = (map_option (\<lambda>out. zero_fill F L starting_level level i
                           (fold (visit_out m F starting_level interpolation_type grid i) visits out)) a,
        map_option (fold (visit_dy m F L starting_level interpolation_type grid i) visits) b)"
  using assms
  by (cases a) (simp_all add: kernel_takikawa_def fold_forward_visit)

lemma zero_rows_apply:
  "fold (\<lambda>level out. fold (\<lambda>f out. mat_set out (level * F + f) i 0) [0..<F] out) [a..<b] out r c
     = (if c = i \<and> a * F \<le> r \<and> r < b * F then 0 else out r c)"
proof (induction b)
  case 0
  show ?case by simp
next
  case (Suc b)
  let ?H = "\<lambda>level out. fold (\<lambda>f out. mat_set out (level * F + f) i 0) [0..<F] out"
  show ?case
  proof (cases "a \<le> b")
    case True
    define A where "A = a * F"
    define B where "B = b * F"
    have mono: "A \<le> B" using True by (simp add: A_def B_def)
    have Sb: "Suc b * F = B + F" by (simp add: B_def)
    have "fold ?H [a..<Suc b] out r c = ?H b (fold ?H [a..<b] out) r c"
      using True by simp
    also have "\<dots> = (if c = i \<and> B \<le> r \<and> r < B + F then 0 else fold ?H [a..<b] out r c)"
      unfolding B_def by (simp only: fold_store_apply)
    also have "\<dots> = (if c = i \<and> A \<le> r \<and> r < Suc b * F then 0 else out r c)"
      unfolding Suc.IH Sb A_def [symmetric] B_def [symmetric] using mono by auto
    finally show ?thesis unfolding A_def .
  next
    case False
    define A where "A = a * F"
    have "Suc b * F \<le> A" unfolding A_def using False by (intro mult_le_mono1) simp
    then have "\<not> (A \<le> r \<and> r < Suc b * F)" by linarith
    then show ?thesis using False unfolding A_def by auto
  qed
qed

lemma zero_fill_apply:
  "zero_fill F L starting_level level i out r c
     = (if c = i \<and> nat (max 0 (level - int starting_level)) * F \<le> r \<and> r < L * F
        then 0 else out r c)"
  unfolding zero_fill_def Let_def by (rule zero_rows_apply)






section \<open>Rows and cache ranges of different levels\<close>




section \<open>One visit on the output\<close>

lemma visit_out_apply:
  "visit_out m F sl t grid i (node, lv, pos) out r c
     = (if sl \<le> lv \<and> c = i \<and> (lv - sl) * F \<le> r \<and> r < (lv - sl) * F + F
        then trilinear F grid node (interpolation_position m t pos) (r - (lv - sl) * F)
        else out r c)"
  by (simp add: visit_out_def store_features_apply forward_warp_snd)



section \<open>Forward pass: zero fill and interpolation\<close>

lemma forward_output_thread:
  assumes "octree_traverse (L + sl) (make_vec3 (data_in 0 i) (data_in 1 i) (data_in 2 i))
             = (visits, level)"
    and "i < num_elements" and "0 < F" and "0 < L"
  shows "fst (kernel_takikawa m F L sl t octree_traverse grid data_in num_elements i
                (Some out, dy_dx))
     = Some (zero_fill F L sl level i (fold (visit_out m F sl t grid i) visits out))"
  using assms by (simp add: kernel_takikawa_def fold_forward_visit)




lemma centroid_interpolation:
  "trilinear_spec v (interpolation_position m Linear centroid)
     = (v 0 + v 1 + v 2 + v 3 + v 4 + v 5 + v 6 + v 7) / 8"
  by (simp add: trilinear_spec_def interpolation_position_def centroid_def)



section \<open>The scenario of one node and a sample at its centre\<close>

lemma scatter_corner_half2_two:
  "scatter_corner 750 Half 2 grad weight param_idx pg
     = atomicAdd_half2 pg param_idx (grad 0 * weight, grad 1 * weight)"
  by (simp add: scatter_corner_def half2_features_def)

text \<open>
  C2. The scenario: \<open>F = 2\<close>, two levels from level 0, one populated node with the
  feature vectors \<open>(2 v, 2 v + 1)\<close> at its vertices \<open>v\<close>, a sample at the centre of the
  node, whose traversal visits the node and returns 1. The forward kernel writes the mean
  \<open>(7, 8)\<close> of the 8 corner vectors for level 0. For the upstream gradient \<open>[1, 1]\<close> and
  a zero buffer the claim has \<open>1/8\<close> in both slots of every vertex. With float
  accumulation, slot 0 of vertex 0 receives \<open>1/4\<close> and slot 1 nothing; with half
  accumulation on the \<open>__half2\<close> path both receive \<open>1/8\<close>.
\<close>

theorem centroid_scenario:
  "map_option (\<lambda>out'. (out' 0 0, out' 1 0))
     (fst (kernel_takikawa m 2 2 0 Linear single_node_traversal ramp_grid
             (\<lambda>row col. 1 / 2) 1 0 (Some (\<lambda>row col. 0), None))) = Some (7, 8)
   \<and> kernel_takikawa_backward m 750 Float 2 2 0 Linear single_node_traversal
       (\<lambda>row col. 1 / 2) upstream11 1 0 (\<lambda>_. 0) 0 = 1 / 4
   \<and> kernel_takikawa_backward m 750 Float 2 2 0 Linear single_node_traversal
       (\<lambda>row col. 1 / 2) upstream11 1 0 (\<lambda>_. 0) 1 = 0
   \<and> kernel_takikawa_backward m 750 Half 2 2 0 Linear single_node_traversal
       (\<lambda>row col. 1 / 2) upstream11 1 0 (\<lambda>_. 0) 0 = 1 / 8
   \<and> kernel_takikawa_backward m 750 Half 2 2 0 Linear single_node_traversal
       (\<lambda>row col. 1 / 2) upstream11 1 0 (\<lambda>_. 0) 1 = 1 / 8"
proof -
  have b: "single_node_traversal (2 + 0) (make_vec3 (1 / 2) (1 / 2) (1 / 2))
      = ([(corner_node, 0, centroid)], 1)"
    by (simp add: single_node_traversal_def)
  have fwd: "map_option (\<lambda>out'. (out' 0 0, out' 1 0))
     (fst (kernel_takikawa m 2 2 0 Linear single_node_traversal ramp_grid
             (\<lambda>row col. 1 / 2) 1 0 (Some (\<lambda>row col. 0), None))) = Some (7, 8)"
    by (simp add: forward_output_thread [where octree_traverse = single_node_traversal
          and data_in = "\<lambda>row col. 1 / 2" and i = 0, OF b]
        zero_fill_apply visit_out_apply trilinear_eq_spec centroid_interpolation
        ramp_grid_def corner_node_def)
  have fl: "kernel_takikawa_backward m 750 Float 2 2 0 Linear single_node_traversal
       (\<lambda>row col. 1 / 2) upstream11 1 0 (\<lambda>_. 0)
     = fold (\<lambda>idx pg. atomicAdd pg (idx * 2) (1 / 4)) [0, 1, 2, 3, 4, 5, 6, 7] (\<lambda>_. 0)"
    by (simp add: kernel_takikawa_backward_def single_node_traversal_def backward_visit_def
        backward_warp_def scatter_corner_float corner_node_def upstream11_def
        corner_weight_centroid upt_8 upt_2 Let_def)
  have hf: "kernel_takikawa_backward m 750 Half 2 2 0 Linear single_node_traversal
       (\<lambda>row col. 1 / 2) upstream11 1 0 (\<lambda>_. 0)
     = fold (\<lambda>idx pg. atomicAdd_half2 pg (idx * 2) (1 / 8, 1 / 8)) [0, 1, 2, 3, 4, 5, 6, 7] (\<lambda>_. 0)"
    by (simp add: kernel_takikawa_backward_def single_node_traversal_def backward_visit_def
        backward_warp_def scatter_corner_half2_two corner_node_def upstream11_def
        corner_weight_centroid upt_8 Let_def)
  have bwd: "fold (\<lambda>idx pg. atomicAdd pg (idx * 2) (1 / 4)) [0, 1, 2, 3, 4, 5, 6, 7] (\<lambda>_. 0) 0 = 1 / 4
      \<and> fold (\<lambda>idx pg. atomicAdd pg (idx * 2) (1 / 4)) [0, 1, 2, 3, 4, 5, 6, 7] (\<lambda>_. 0) 1 = 0
      \<and> fold (\<lambda>idx pg. atomicAdd_half2 pg (idx * 2) (1 / 8, 1 / 8)) [0, 1, 2, 3, 4, 5, 6, 7]
            (\<lambda>_. 0) 0 = 1 / 8
      \<and> fold (\<lambda>idx pg. atomicAdd_half2 pg (idx * 2) (1 / 8, 1 / 8)) [0, 1, 2, 3, 4, 5, 6, 7]
            (\<lambda>_. 0) 1 = 1 / 8"
    by (simp add: atomicAdd_def atomicAdd_half2_def)
  show ?thesis
    unfolding fl hf by (rule conjI [OF fwd bwd])
qed

section \<open>Gradient accumulation modes\<close>

lemma launch_backward:
  "linear_kernel (kernel_takikawa_backward m CA G F L sl t tr data_in dL_dy) num_elements pg
     = fold (kernel_takikawa_backward m CA G F L sl t tr data_in dL_dy num_elements)
         [0..<num_elements] pg"
  by (rule linear_kernel_guarded) (rule backward_guard)


lemma sum_list_single:
  "sum_list (map (\<lambda>x. if x = k then c else 0) [0..<n]) = (if k < n then c else (0::real))"
  by (induction n) auto

lemma half1_backward_thread:
  "kernel_takikawa_backward cubic_math 750 Float 1 2 0 Linear single_node_traversal
       (\<lambda>row col. 1 / 2) upstream11 1 0 pg
     = (\<lambda>k. if k < 8 then pg k + 1 / 8 else pg k)"
proof
  fix k
  have "kernel_takikawa_backward cubic_math 750 Float 1 2 0 Linear single_node_traversal
       (\<lambda>row col. 1 / 2) upstream11 1 0 pg
     = fold (\<lambda>idx pg. atomicAdd pg idx (1 / 8)) [0..<8] pg"
    by (simp add: kernel_takikawa_backward_def single_node_traversal_def backward_visit_def
        backward_warp_def scatter_corner_float corner_node_def upstream11_def
        corner_weight_centroid Let_def)
  then show "kernel_takikawa_backward cubic_math 750 Float 1 2 0 Linear single_node_traversal
       (\<lambda>row col. 1 / 2) upstream11 1 0 pg k = (if k < 8 then pg k + 1 / 8 else pg k)"
    by (simp only: fold_atomicAdd_apply sum_list_single) simp
qed

text \<open>
  C7. The encoder with half-precision parameters and one feature per level accumulates
  in float (\<open>grad_t\<close> is not the parameter type), in a workspace. In accumulate mode (the
  add mode of the claim) the workspace is not cleared and its content replaces the first
  \<open>n_params\<close> gradients: the pass returns the content of the workspace plus the
  contributions, whatever the gradient buffer held. From a zero buffer, with a workspace
  that happens to hold zeros, one run gives \<open>1/8\<close> in the 8 slots, and a second run on that
  buffer gives \<open>1/8\<close> again, not \<open>1/4\<close>. In overwrite mode the same encoder returns the
  contributions whatever the buffer and the workspace held, and the encoder with float
  parameters (\<open>grad_t\<close> is the parameter type) adds the contributions to the buffer in
  accumulate mode.
\<close>

theorem accumulate_mode_through_workspace:
  "backward_impl cubic_math 75 750 half1_encoding workspace None one_sample upstream11 None
       Accumulate gradients
     = Inr (\<lambda>k. if k < 8 then workspace k + 1 / 8 else gradients k, None)
   \<and> backward_impl cubic_math 75 750 half1_encoding (\<lambda>_. 0) None one_sample upstream11 None
       Accumulate (\<lambda>_. 0)
     = Inr (\<lambda>k. if k < 8 then 1 / 8 else 0, None)
   \<and> backward_impl cubic_math 75 750 half1_encoding (\<lambda>_. 0) None one_sample upstream11 None
       Accumulate (\<lambda>k. if k < 8 then 1 / 8 else 0)
     = Inr (\<lambda>k. if k < 8 then 1 / 8 else 0, None)
   \<and> backward_impl cubic_math 75 750 half1_encoding workspace None one_sample upstream11 None
       Overwrite gradients
     = Inr (\<lambda>k. if k < 8 then 1 / 8 else gradients k, None)
   \<and> backward_impl cubic_math 75 750 float1_encoding workspace None one_sample upstream11 None
       Accumulate gradients
     = Inr (\<lambda>k. if k < 8 then gradients k + 1 / 8 else gradients k, None)"
proof -
  have run: "backward_impl cubic_math 75 750 half1_encoding ws None one_sample upstream11 None
       Accumulate g
     = Inr (\<lambda>k. if k < 8 then ws k + 1 / 8 else g k, None)" for ws g
    using half1_backward_thread [of ws]
    by (simp add: backward_impl_def half1_encoding_def one_sample_def example_octree_def
        grad_t_def padded_output_width_def n_levels_def n_params_def launch_backward
        cast_copy_def fun_eq_iff)
  have over: "backward_impl cubic_math 75 750 half1_encoding ws None one_sample upstream11 None
       Overwrite g
     = Inr (\<lambda>k. if k < 8 then 1 / 8 else g k, None)" for ws g
    using half1_backward_thread [of "memset_zero 8 ws"]
    by (simp add: backward_impl_def half1_encoding_def one_sample_def example_octree_def
        grad_t_def padded_output_width_def n_levels_def n_params_def launch_backward
        cast_copy_def memset_zero_def fun_eq_iff)
  have float: "backward_impl cubic_math 75 750 float1_encoding ws None one_sample upstream11 None
       Accumulate g
     = Inr (\<lambda>k. if k < 8 then g k + 1 / 8 else g k, None)" for ws g
    using half1_backward_thread [of g]
    by (simp add: backward_impl_def float1_encoding_def half1_encoding_def one_sample_def
        example_octree_def grad_t_def padded_output_width_def n_levels_def n_params_def
        launch_backward fun_eq_iff)
  show ?thesis
    unfolding over float by (simp add: run fun_eq_iff)
qed

section \<open>One visit on the derivative cache\<close>





section \<open>All visits of a thread on the derivative cache\<close>







section \<open>Forward pass: the derivative cache\<close>




section \<open>Unreached levels: output and derivative cache\<close>





section \<open>The forward launch\<close>






section \<open>Forward with a null output\<close>








end
